theory Spec2Isabelle
  imports Main "HOL-Library.Sublist"
begin

section \<open>Python strings\<close>

text \<open>
  Python's \<open>str\<close> is modelled as \<open>string\<close>. The character classes below are the ones
  Python's \<open>str\<close> methods and the \<open>re\<close> module use on ASCII text; a character
  above 127 is taken to be no letter, no digit and no white space.
\<close>

definition bslash :: char where
  "bslash = CHR 0x5C"

definition newline :: char where
  "newline = CHR 0x0A"

definition isspace :: "char \<Rightarrow> bool" where
  \<comment> \<open>\<open>str.isspace\<close>: tab, line feed, vertical tab, form feed, carriage return,
      the separators 0x1C to 0x1F, and the space\<close>
  "isspace c = (let n = (of_char c :: nat) in (9 \<le> n \<and> n \<le> 13) \<or> (28 \<le> n \<and> n \<le> 32))"

definition isdigit :: "char \<Rightarrow> bool" where
  "isdigit c = (let n = (of_char c :: nat) in 48 \<le> n \<and> n \<le> 57)"

definition isupper :: "char \<Rightarrow> bool" where
  "isupper c = (let n = (of_char c :: nat) in 65 \<le> n \<and> n \<le> 90)"

definition islower :: "char \<Rightarrow> bool" where
  "islower c = (let n = (of_char c :: nat) in 97 \<le> n \<and> n \<le> 122)"

definition lower_char :: "char \<Rightarrow> char" where
  "lower_char c = (if isupper c then char_of ((of_char c :: nat) + 32) else c)"

definition upper_char :: "char \<Rightarrow> char" where
  "upper_char c = (if islower c then char_of ((of_char c :: nat) - 32) else c)"

definition lower :: "string \<Rightarrow> string" where
  \<comment> \<open>\<open>str.lower()\<close>\<close>
  "lower s = map lower_char s"

definition lstrip :: "string \<Rightarrow> string" where
  "lstrip s = dropWhile isspace s"

definition rstrip :: "string \<Rightarrow> string" where
  "rstrip s = rev (dropWhile isspace (rev s))"

definition strip :: "string \<Rightarrow> string" where
  \<comment> \<open>\<open>str.strip()\<close>: white space removed at both ends\<close>
  "strip s = rstrip (lstrip s)"

definition startswith :: "string \<Rightarrow> string \<Rightarrow> bool" where
  \<comment> \<open>\<open>s.startswith(p)\<close>\<close>
  "startswith p s = (take (length p) s = p)"

fun contains :: "string \<Rightarrow> string \<Rightarrow> bool" where
  \<comment> \<open>\<open>sub in s\<close>\<close>
  "contains sub [] = (sub = [])"
| "contains sub (c # cs) = (startswith sub (c # cs) \<or> contains sub cs)"

fun digits_of :: "nat \<Rightarrow> string" where
  \<comment> \<open>\<open>str(n)\<close> for a non-negative integer: its decimal digits\<close>
  "digits_of n =
     (if n < 10 then [char_of (48 + n)]
      else digits_of (n div 10) @ [char_of (48 + n mod 10)])"

declare digits_of.simps [simp del]

section \<open>File identity\<close>

text \<open>
  A file is identified by the text of its path, as \<open>str(file_path)\<close> gives it, with
  \<open>/\<close> between the components. \<open>path_name\<close> is pathlib's \<open>Path.name\<close>, the last
  component, and \<open>path_suffix\<close> is \<open>Path.suffix\<close>: the part of the name from its last
  dot on, and empty when the name has no dot, starts with its only dot or ends with a dot.
\<close>

definition path_name :: "string \<Rightarrow> string" where
  "path_name p = rev (takeWhile (\<lambda>c. c \<noteq> CHR ''/'') (rev p))"

definition rfind :: "char \<Rightarrow> string \<Rightarrow> nat option" where
  \<comment> \<open>\<open>s.rfind(c)\<close>, with \<open>None\<close> for Python's \<open>-1\<close>\<close>
  "rfind c s =
     (if c \<in> set s then Some (length s - Suc (length (takeWhile (\<lambda>x. x \<noteq> c) (rev s))))
      else None)"

definition path_suffix :: "string \<Rightarrow> string" where
  "path_suffix p =
     (let name = path_name p in
      case rfind (CHR ''.'') name of
        None \<Rightarrow> []
      | Some i \<Rightarrow> if 0 < i \<and> Suc i < length name then drop i name else [])"

section \<open>The false-positive filter\<close>

text \<open>
  \<open>_is_false_positive(match, line, file_path)\<close> is a chain of five \<open>if\<close> statements,
  each returning \<open>True\<close>. Each condition is a definition of its own, named after the
  comment the source puts above it.
\<close>

definition in_comment :: "string \<Rightarrow> bool" where
  \<comment> \<open>Skip if it's in a comment or documentation\<close>
  "in_comment line = (startswith ''//'' (strip line) \<or> startswith ''#'' (strip line))"

definition test_data :: "string \<Rightarrow> string \<Rightarrow> bool" where
  \<comment> \<open>Skip if it's in a test file and looks like test data\<close>
  "test_data mtch file_path =
     (contains ''test'' (lower (path_name file_path)) \<and>
      list_ex (\<lambda>word. contains word (lower mtch)) [''test'', ''example'', ''sample''])"

definition config_data :: "string \<Rightarrow> string \<Rightarrow> bool" where
  \<comment> \<open>Skip if it's in a configuration file and looks like configuration\<close>
  "config_data mtch file_path =
     (path_suffix file_path \<in> set [''.yml'', ''.yaml'', ''.json'', ''.xml''] \<and>
      list_ex (\<lambda>word. contains word (lower mtch)) [''config'', ''example'', ''template''])"

definition regex_literal :: "string \<Rightarrow> bool" where
  \<comment> \<open>Skip if it's clearly a pattern or regex\<close>
  "regex_literal line =
     (contains [bslash, CHR ''b''] line \<or> contains [bslash, CHR ''d''] line \<or>
      contains [bslash, CHR ''w''] line)"

definition pattern_prose :: "string \<Rightarrow> bool" where
  \<comment> \<open>Skip if it's in a string literal that's clearly a pattern\<close>
  "pattern_prose line =
     (contains ''pattern'' (lower line) \<or> contains ''regex'' (lower line) \<or>
      contains ''format'' (lower line))"

definition is_false_positive :: "string \<Rightarrow> string \<Rightarrow> string \<Rightarrow> bool" where
  "is_false_positive mtch line file_path =
     (if in_comment line then True
      else if test_data mtch file_path then True
      else if config_data mtch file_path then True
      else if regex_literal line then True
      else if pattern_prose line then True
      else False)"

section \<open>Regular expressions\<close>

text \<open>
  The rules are Python regular expressions, compiled with \<open>re.IGNORECASE\<close>. The syntax
  tree below covers what the catalog uses: literal characters, character classes with
  ranges and the escapes \<open>\d\<close> and \<open>\s\<close>, the word boundary \<open>\b\<close>, sequence,
  alternation inside a non-capturing group, and the greedy quantifiers \<open>*\<close>, \<open>+\<close>,
  \<open>?\<close>, \<open>{n}\<close>, \<open>{m,n}\<close> and \<open>{m,}\<close>.
\<close>

datatype cset_item = Chr char | Rng char char | Digit | Space

datatype regex =
    Eps
  | Lit char
  | Cls "cset_item list"
  | Boundary
  | Seq regex regex
  | Alt regex regex
  | Rep nat "nat option" regex

fun in_item :: "cset_item \<Rightarrow> char \<Rightarrow> bool" where
  "in_item (Chr a) c = (c = a)"
| "in_item (Rng a b) c = ((of_char a :: nat) \<le> of_char c \<and> (of_char c :: nat) \<le> of_char b)"
| "in_item Digit c = isdigit c"
| "in_item Space c = isspace c"

definition in_class :: "cset_item list \<Rightarrow> char \<Rightarrow> bool" where
  "in_class items c = list_ex (\<lambda>it. in_item it c) items"

definition in_class_ic :: "cset_item list \<Rightarrow> char \<Rightarrow> bool" where
  \<comment> \<open>under \<open>IGNORECASE\<close> a character is in a class when either of its cases is\<close>
  "in_class_ic items c =
     (in_class items c \<or> in_class items (lower_char c) \<or> in_class items (upper_char c))"

definition isword :: "char \<Rightarrow> bool" where
  \<comment> \<open>\<open>\w\<close>: letters, digits and the underscore\<close>
  "isword c = (isupper c \<or> islower c \<or> isdigit c \<or> c = CHR ''_'')"

definition word_at :: "string \<Rightarrow> nat \<Rightarrow> bool" where
  "word_at s i = (i < length s \<and> isword (s ! i))"

definition at_boundary :: "string \<Rightarrow> nat \<Rightarrow> bool" where
  \<comment> \<open>\<open>\b\<close> holds between a word character and a non-word character or an end of the text\<close>
  "at_boundary s i = ((0 < i \<and> word_at s (i - 1)) \<noteq> word_at s i)"

text \<open>
  \<open>rep step lo k i\<close> is the greedy repetition: \<open>step\<close> gives the ends of one more
  iteration, \<open>lo\<close> iterations are still owed and at most \<open>k\<close> may follow. One more
  iteration is tried before stopping here.
\<close>

fun rep :: "(nat \<Rightarrow> nat list) \<Rightarrow> nat \<Rightarrow> nat \<Rightarrow> nat \<Rightarrow> nat list" where
  "rep step lo 0 i = (if lo = 0 then [i] else [])"
| "rep step lo (Suc k) i =
     concat (map (rep step (lo - 1) k) (step i)) @ (if lo = 0 then [i] else [])"

text \<open>
  \<open>ends s r i\<close> lists the positions where a match of \<open>r\<close> that starts at position
  \<open>i\<close> of \<open>s\<close> can end, in the order in which the backtracking matcher of \<open>re\<close>
  tries them: the first one is the end of the match \<open>re\<close> reports. An unbounded
  quantifier runs at most as many iterations as characters are left, which is all of them
  for the rules of the catalog, whose repeated parts consume one character each.
\<close>

fun ends :: "string \<Rightarrow> regex \<Rightarrow> nat \<Rightarrow> nat list" where
  "ends s Eps i = [i]"
| "ends s (Lit c) i =
     (if i < length s \<and> lower_char (s ! i) = lower_char c then [Suc i] else [])"
| "ends s (Cls items) i =
     (if i < length s \<and> in_class_ic items (s ! i) then [Suc i] else [])"
| "ends s Boundary i = (if at_boundary s i then [i] else [])"
| "ends s (Seq a b) i = concat (map (ends s b) (ends s a i))"
| "ends s (Alt a b) i = ends s a i @ ends s b i"
| "ends s (Rep lo hi r) i =
     rep (ends s r) lo (case hi of Some h \<Rightarrow> h | None \<Rightarrow> lo + (length s - i)) i"

definition match_at :: "string \<Rightarrow> regex \<Rightarrow> nat \<Rightarrow> bool \<Rightarrow> nat option" where
  \<comment> \<open>the end of the match at \<open>i\<close>; with \<open>must_advance\<close> the empty match is refused\<close>
  "match_at s r i must_advance =
     (case filter (\<lambda>j. \<not> (must_advance \<and> j = i)) (ends s r i) of
        [] \<Rightarrow> None
      | j # _ \<Rightarrow> Some j)"

function search :: "string \<Rightarrow> regex \<Rightarrow> nat \<Rightarrow> bool \<Rightarrow> (nat \<times> nat) option" where
  "search s r i must_advance =
     (if length s < i then None
      else case match_at s r i must_advance of
             Some j \<Rightarrow> Some (i, j)
           | None \<Rightarrow> search s r (Suc i) False)"
  by pat_completeness auto
termination
  by (relation "measure (\<lambda>(s, r, i, a). Suc (length s) - i)") auto

declare search.simps [simp del]

definition substr :: "string \<Rightarrow> nat \<Rightarrow> nat \<Rightarrow> string" where
  \<comment> \<open>\<open>s[i:j]\<close> for \<open>i \<le> j\<close>\<close>
  "substr s i j = take (j - i) (drop i s)"

lemma rep_ge:
  assumes "\<And>i j. j \<in> set (step i) \<Longrightarrow> i \<le> j" and "j \<in> set (rep step lo k i)"
  shows "i \<le> j"
  using assms(2)
proof (induction k arbitrary: lo i)
  case 0
  then show ?case by (simp split: if_splits)
next
  case (Suc k)
  from Suc.prems consider
    (more) m where "m \<in> set (step i)" "j \<in> set (rep step (lo - 1) k m)"
    | (stop) "j = i"
    by (auto split: if_splits)
  then show ?case
  proof cases
    case more
    from assms(1) [OF more(1)] Suc.IH [OF more(2)] show ?thesis by simp
  next
    case stop
    then show ?thesis by simp
  qed
qed

lemma ends_ge: "j \<in> set (ends s r i) \<Longrightarrow> i \<le> j"
proof (induction r arbitrary: i j)
  case (Seq a b)
  then obtain m where "m \<in> set (ends s a i)" "j \<in> set (ends s b m)"
    by auto
  with Seq.IH show ?case
    using le_trans by blast
next
  case (Rep lo hi r)
  show ?case
  proof (rule rep_ge)
    show "\<And>i j. j \<in> set (ends s r i) \<Longrightarrow> i \<le> j"
      by (rule Rep.IH)
    from Rep.prems
    show "j \<in> set (rep (ends s r) lo (case hi of Some h \<Rightarrow> h | None \<Rightarrow> lo + (length s - i)) i)"
      by simp
  qed
qed (auto split: if_splits)

lemma match_at_Some:
  assumes "match_at s r i a = Some j"
  shows "i \<le> j \<and> (a \<longrightarrow> j \<noteq> i)"
proof -
  from assms obtain js where js: "filter (\<lambda>j. \<not> (a \<and> j = i)) (ends s r i) = j # js"
    by (auto simp: match_at_def split: list.splits)
  then have "j \<in> set (filter (\<lambda>j. \<not> (a \<and> j = i)) (ends s r i))"
    by simp
  then show ?thesis
    by (auto dest: ends_ge)
qed

lemma search_Some:
  "search s r p a = Some (i, j) \<Longrightarrow> p \<le> i \<and> i \<le> length s \<and> i \<le> j \<and> (a \<and> i = p \<longrightarrow> j \<noteq> i)"
proof (induction s r p a rule: search.induct)
  case (1 s r p a)
  show ?case
  proof (cases "match_at s r p a")
    case None
    with "1.prems" have le: "\<not> length s < p" and rec: "search s r (Suc p) False = Some (i, j)"
      by (auto simp: search.simps [of s r p a] split: if_splits)
    from "1.IH" [OF le None rec] show ?thesis by simp
  next
    case (Some m)
    with "1.prems" have "\<not> length s < p" "i = p" "j = m"
      by (auto simp: search.simps [of s r p a] split: if_splits)
    with match_at_Some [OF Some] show ?thesis by simp
  qed
qed

text \<open>
  \<open>re.finditer\<close> yields the matches from left to right, each search starting where the
  last match ended; after an empty match the next one may not be empty at the same place.
  The list holds \<open>match.group()\<close> of every match.
\<close>

function finditer_from :: "string \<Rightarrow> regex \<Rightarrow> nat \<Rightarrow> bool \<Rightarrow> string list" where
  "finditer_from s r pos must_advance =
     (case search s r pos must_advance of
        None \<Rightarrow> []
      | Some (i, j) \<Rightarrow> substr s i j # finditer_from s r j (j = i))"
  by pat_completeness auto
termination
proof (relation "measure (\<lambda>(s, r, pos, a). 2 * (Suc (length s) - pos) + (if a then 0 else 1))",
    goal_cases)
  case 1
  show ?case by simp
next
  case (2 s r pos a x i j)
  then have "search s r pos a = Some (i, j)" by simp
  from search_Some [OF this] show ?case
    by (auto split: if_splits)
qed

declare finditer_from.simps [simp del]

definition finditer :: "regex \<Rightarrow> string \<Rightarrow> string list" where
  "finditer r s = finditer_from s r 0 False"

section \<open>The catalog of rules\<close>

fun lits :: "string \<Rightarrow> regex" where
  "lits [] = Eps"
| "lits (c # cs) = Seq (Lit c) (lits cs)"

fun seqs :: "regex list \<Rightarrow> regex" where
  "seqs [] = Eps"
| "seqs (r # rs) = Seq r (seqs rs)"

fun alts :: "regex list \<Rightarrow> regex" where
  "alts [] = Cls []"
| "alts [r] = r"
| "alts (r # rs) = Alt r (alts rs)"

definition star :: "regex \<Rightarrow> regex" where
  "star r = Rep 0 None r"

definition plus :: "regex \<Rightarrow> regex" where
  "plus r = Rep 1 None r"

definition opt :: "regex \<Rightarrow> regex" where
  "opt r = Rep 0 (Some 1) r"

definition times :: "nat \<Rightarrow> regex \<Rightarrow> regex" where
  "times n r = Rep n (Some n) r"

definition digit :: regex where
  \<comment> \<open>\<open>\d\<close>\<close>
  "digit = Cls [Digit]"

definition space :: regex where
  \<comment> \<open>\<open>\s\<close>\<close>
  "space = Cls [Space]"

definition upper_AZ :: regex where
  \<comment> \<open>\<open>[A-Z]\<close>\<close>
  "upper_AZ = Cls [Rng CHR ''A'' CHR ''Z'']"

definition lower_az :: regex where
  \<comment> \<open>\<open>[a-z]\<close>\<close>
  "lower_az = Cls [Rng CHR ''a'' CHR ''z'']"

definition alnum :: "cset_item list" where
  \<comment> \<open>\<open>A-Za-z0-9\<close> inside a class\<close>
  "alnum = [Rng CHR ''A'' CHR ''Z'', Rng CHR ''a'' CHR ''z'', Rng CHR ''0'' CHR ''9'']"

definition alpha_space :: regex where
  \<comment> \<open>\<open>[A-Za-z\s]\<close>\<close>
  "alpha_space = Cls [Rng CHR ''A'' CHR ''Z'', Rng CHR ''a'' CHR ''z'', Space]"

definition alnum_space :: regex where
  \<comment> \<open>\<open>[A-Za-z0-9\s]\<close>\<close>
  "alnum_space = Cls (alnum @ [Space])"

definition alnum_dash :: regex where
  \<comment> \<open>\<open>[A-Za-z0-9-]\<close>\<close>
  "alnum_dash = Cls (alnum @ [Chr CHR ''-''])"

definition labelled_id :: "regex \<Rightarrow> regex" where
  \<comment> \<open>\<open>\b\<close> label \<open>\s*:?\s*[A-Za-z0-9-]+\b\<close>\<close>
  "labelled_id label =
     seqs [Boundary, label, star space, opt (Lit CHR '':''), star space, plus alnum_dash,
           Boundary]"

definition labelled_text :: "regex \<Rightarrow> regex" where
  \<comment> \<open>\<open>\b(?:\<close> label \<open>)\s*:?\s*[A-Za-z0-9\s]+\<close>\<close>
  "labelled_text label =
     seqs [Boundary, label, star space, opt (Lit CHR '':''), star space, plus alnum_space]"

definition labelled_date :: "regex \<Rightarrow> regex" where
  \<comment> \<open>\<open>\b(?:\<close> label \<open>)\s*:?\s*\d{1,2}[/-]\d{1,2}[/-]\d{2,4}\<close>\<close>
  "labelled_date label =
     seqs [Boundary, label, star space, opt (Lit CHR '':''), star space,
           Rep 1 (Some 2) digit, Cls [Chr CHR ''/'', Chr CHR ''-''],
           Rep 1 (Some 2) digit, Cls [Chr CHR ''/'', Chr CHR ''-''],
           Rep 2 (Some 4) digit]"

definition titled_name :: "regex \<Rightarrow> regex" where
  \<comment> \<open>\<open>\b(?:\<close> title \<open>)\s+[A-Z][a-z]+\s+[A-Z][a-z]+\b\<close>\<close>
  "titled_name title =
     seqs [Boundary, title, plus space, upper_AZ, plus lower_az, plus space,
           upper_AZ, plus lower_az, Boundary]"

definition abbrev :: "string \<Rightarrow> regex" where
  \<comment> \<open>an abbreviation with an optional full stop, as \<open>Pt\.?\<close>\<close>
  "abbrev w = Seq (lits w) (opt (Lit CHR ''.''))"

definition phone_numbers :: "regex list" where
  \<open>phone_numbers =
    [ \<comment> \<open>\<open>\b[6-9]\d{9}\b\<close>\<close>
      seqs [Boundary, Cls [Rng CHR ''6'' CHR ''9''], times 9 digit, Boundary],
      \<comment> \<open>\<open>\+91[6-9]\d{9}\b\<close>\<close>
      seqs [lits ''+91'', Cls [Rng CHR ''6'' CHR ''9''], times 9 digit, Boundary],
      \<comment> \<open>\<open>\b91[6-9]\d{9}\b\<close>\<close>
      seqs [Boundary, lits ''91'', Cls [Rng CHR ''6'' CHR ''9''], times 9 digit, Boundary],
      \<comment> \<open>\<open>\(\d{3}\)\s*\d{3}-\d{4}\<close>\<close>
      seqs [Lit CHR ''('', times 3 digit, Lit CHR '')'', star space, times 3 digit,
            Lit CHR ''-'', times 4 digit],
      \<comment> \<open>\<open>\d{3}-\d{3}-\d{4}\<close>\<close>
      seqs [times 3 digit, Lit CHR ''-'', times 3 digit, Lit CHR ''-'', times 4 digit],
      \<comment> \<open>\<open>\d{10}\<close>\<close>
      times 10 digit ]\<close>

definition email_addresses :: "regex list" where
  \<open>email_addresses =
    [ \<comment> \<open>\<open>\b[A-Za-z0-9._%+-]+@[A-Za-z0-9.-]+\.[A-Z|a-z]{2,}\b\<close>\<close>
      seqs [Boundary,
            plus (Cls (alnum @ [Chr CHR ''.'', Chr CHR ''_'', Chr CHR ''%'', Chr CHR ''+'',
                                Chr CHR ''-''])),
            Lit CHR ''@'',
            plus (Cls (alnum @ [Chr CHR ''.'', Chr CHR ''-''])),
            Lit CHR ''.'',
            Rep 2 None (Cls [Rng CHR ''A'' CHR ''Z'', Chr CHR ''|'', Rng CHR ''a'' CHR ''z'']),
            Boundary] ]\<close>

definition names :: "regex list" where
  \<open>names =
    [ \<comment> \<open>\<open>\b(?:Dr\.?|Doctor)\s+[A-Z][a-z]+\s+[A-Z][a-z]+\b\<close>\<close>
      titled_name (alts [abbrev ''Dr'', lits ''Doctor'']),
      \<comment> \<open>\<open>\b(?:Patient|Pt\.?)\s+[A-Z][a-z]+\s+[A-Z][a-z]+\b\<close>\<close>
      titled_name (alts [lits ''Patient'', abbrev ''Pt'']),
      \<comment> \<open>\<open>\b[A-Z][a-z]+\s+[A-Z][a-z]+\s+[A-Z][a-z]+\b\<close>\<close>
      seqs [Boundary, upper_AZ, plus lower_az, plus space, upper_AZ, plus lower_az,
            plus space, upper_AZ, plus lower_az, Boundary] ]\<close>

definition medical_ids :: "regex list" where
  \<open>medical_ids =
    [ \<comment> \<open>\<open>\bMRN\s*:?\s*[A-Za-z0-9-]+\b\<close>\<close>
      labelled_id (lits ''MRN''),
      \<comment> \<open>\<open>\bPatient\s*ID\s*:?\s*[A-Za-z0-9-]+\b\<close>\<close>
      labelled_id (seqs [lits ''Patient'', star space, lits ''ID'']),
      \<comment> \<open>\<open>\bEncounter\s*ID\s*:?\s*[A-Za-z0-9-]+\b\<close>\<close>
      labelled_id (seqs [lits ''Encounter'', star space, lits ''ID'']),
      \<comment> \<open>\<open>\bClinic\s*ID\s*:?\s*[A-Za-z0-9-]+\b\<close>\<close>
      labelled_id (seqs [lits ''Clinic'', star space, lits ''ID'']) ]\<close>

definition addresses :: "regex list" where
  \<open>addresses =
    [ \<comment> \<open>\<open>\b\d+\s+[A-Za-z\s]+(?:Street|Road|Avenue|Lane|Colony|Nagar|Pur|Pura)\b\<close>\<close>
      seqs [Boundary, plus digit, plus space, plus alpha_space,
            alts [lits ''Street'', lits ''Road'', lits ''Avenue'', lits ''Lane'',
                  lits ''Colony'', lits ''Nagar'', lits ''Pur'', lits ''Pura''],
            Boundary],
      \<comment> \<open>\<open>\b[A-Za-z\s]+,\s*[A-Za-z\s]+,\s*\d{6}\b\<close>\<close>
      seqs [Boundary, plus alpha_space, Lit CHR '','', star space, plus alpha_space,
            Lit CHR '','', star space, times 6 digit, Boundary] ]\<close>

definition medical_terms :: "regex list" where
  \<open>medical_terms =
    [ \<comment> \<open>\<open>\b(?:Patient|Pt\.?)\s*:?\s*[A-Za-z0-9\s]+\<close>\<close>
      labelled_text (alts [lits ''Patient'', abbrev ''Pt'']),
      \<comment> \<open>\<open>\b(?:Diagnosis|Dx\.?)\s*:?\s*[A-Za-z0-9\s]+\<close>\<close>
      labelled_text (alts [lits ''Diagnosis'', abbrev ''Dx'']),
      \<comment> \<open>\<open>\b(?:Symptoms|Sx\.?)\s*:?\s*[A-Za-z0-9\s]+\<close>\<close>
      labelled_text (alts [lits ''Symptoms'', abbrev ''Sx'']),
      \<comment> \<open>\<open>\b(?:Medication|Meds\.?)\s*:?\s*[A-Za-z0-9\s]+\<close>\<close>
      labelled_text (alts [lits ''Medication'', abbrev ''Meds'']) ]\<close>

definition dates_with_context :: "regex list" where
  \<open>dates_with_context =
    [ \<comment> \<open>\<open>\b(?:DOB|Birth)\s*:?\s*\d{1,2}[/-]\d{1,2}[/-]\d{2,4}\<close>\<close>
      labelled_date (alts [lits ''DOB'', lits ''Birth'']),
      \<comment> \<open>\<open>\b(?:Admission|Discharge)\s*:?\s*\d{1,2}[/-]\d{1,2}[/-]\d{2,4}\<close>\<close>
      labelled_date (alts [lits ''Admission'', lits ''Discharge'']) ]\<close>

definition ssn_patterns :: "regex list" where
  \<open>ssn_patterns =
    [ \<comment> \<open>\<open>\b\d{3}-\d{2}-\d{4}\b\<close>\<close>
      seqs [Boundary, times 3 digit, Lit CHR ''-'', times 2 digit, Lit CHR ''-'',
            times 4 digit, Boundary],
      \<comment> \<open>\<open>\b\d{9}\b\<close>\<close>
      seqs [Boundary, times 9 digit, Boundary] ]\<close>

definition credit_cards :: "regex list" where
  \<open>credit_cards =
    [ \<comment> \<open>\<open>\b\d{4}[\s-]?\d{4}[\s-]?\d{4}[\s-]?\d{4}\b\<close>\<close>
      seqs [Boundary, times 4 digit, opt (Cls [Space, Chr CHR ''-'']),
            times 4 digit, opt (Cls [Space, Chr CHR ''-'']),
            times 4 digit, opt (Cls [Space, Chr CHR ''-'']),
            times 4 digit, Boundary] ]\<close>

definition common_phi_terms :: "regex list" where
  \<open>common_phi_terms =
    [ \<comment> \<open>\<open>\b(?:PHI|PII|Personal|Health|Medical)\s*[A-Za-z0-9\s]*\b\<close>\<close>
      seqs [Boundary,
            alts [lits ''PHI'', lits ''PII'', lits ''Personal'', lits ''Health'',
                  lits ''Medical''],
            star space, star alnum_space, Boundary],
      \<comment> \<open>\<open>\b(?:Confidential|Sensitive|Private)\s*[A-Za-z0-9\s]*\b\<close>\<close>
      seqs [Boundary, alts [lits ''Confidential'', lits ''Sensitive'', lits ''Private''],
            star space, star alnum_space, Boundary] ]\<close>

definition phi_patterns :: "(string \<times> regex list) list" where
  \<comment> \<open>\<open>_load_phi_patterns\<close>: the dictionary, in the order of its keys\<close>
  "phi_patterns =
    [ (''phone_numbers'', phone_numbers),
      (''email_addresses'', email_addresses),
      (''names'', names),
      (''medical_ids'', medical_ids),
      (''addresses'', addresses),
      (''medical_terms'', medical_terms),
      (''dates_with_context'', dates_with_context),
      (''ssn_patterns'', ssn_patterns),
      (''credit_cards'', credit_cards),
      (''common_phi_terms'', common_phi_terms) ]"

section \<open>Scanning a file\<close>

text \<open>
  A violation is the tuple \<open>(line_num, category, message)\<close> that \<open>scan_file\<close>
  appends. The four nested \<open>for\<close> loops of \<open>scan_file\<close> are four recursive functions,
  each passing on the list \<open>violations\<close> it appends to.
\<close>

type_synonym violation = "nat \<times> string \<times> string"

definition message :: "string \<Rightarrow> string \<Rightarrow> string" where
  \<comment> \<open>the f-string \<open>Potential {category}: {match.group()}\<close>\<close>
  "message category matched = ''Potential '' @ category @ '': '' @ matched"

fun scan_matches ::
  "string \<Rightarrow> nat \<Rightarrow> string \<Rightarrow> string \<Rightarrow> string list \<Rightarrow> violation list \<Rightarrow> violation list"
where
  "scan_matches file_path line_num line category [] violations = violations"
| "scan_matches file_path line_num line category (m # matches) violations =
     (if is_false_positive m line file_path
      then scan_matches file_path line_num line category matches violations
      else scan_matches file_path line_num line category matches
             (violations @ [(line_num, category, message category m)]))"

fun scan_rules ::
  "string \<Rightarrow> nat \<Rightarrow> string \<Rightarrow> string \<Rightarrow> regex list \<Rightarrow> violation list \<Rightarrow> violation list"
where
  "scan_rules file_path line_num line category [] violations = violations"
| "scan_rules file_path line_num line category (pattern # patterns) violations =
     scan_rules file_path line_num line category patterns
       (scan_matches file_path line_num line category (finditer pattern line) violations)"

fun scan_categories ::
  "string \<Rightarrow> nat \<Rightarrow> string \<Rightarrow> (string \<times> regex list) list \<Rightarrow> violation list \<Rightarrow> violation list"
where
  "scan_categories file_path line_num line [] violations = violations"
| "scan_categories file_path line_num line ((category, patterns) # items) violations =
     scan_categories file_path line_num line items
       (scan_rules file_path line_num line category patterns violations)"

fun scan_lines :: "string \<Rightarrow> nat \<Rightarrow> string list \<Rightarrow> violation list \<Rightarrow> violation list" where
  "scan_lines file_path line_num [] violations = violations"
| "scan_lines file_path line_num (line # lines) violations =
     scan_lines file_path (Suc line_num) lines
       (scan_categories file_path line_num line phi_patterns violations)"

definition scan_line :: "string \<Rightarrow> nat \<Rightarrow> string \<Rightarrow> violation list" where
  \<comment> \<open>what the scan of one line adds: the body of the loop over the lines\<close>
  "scan_line file_path line_num line = scan_categories file_path line_num line phi_patterns []"

text \<open>
  Reading the file is the argument \<open>reading\<close>: \<open>Inr lines\<close> is what \<open>readlines()\<close>
  returned, \<open>Inl e\<close> an exception with the text \<open>e\<close> raised by \<open>open\<close> or
  \<open>readlines\<close>. \<open>try_block\<close> is the body of \<open>try\<close>: it gives the list
  \<open>violations\<close> as it stands when the block is left, and the exception that left it, if
  one did. \<open>scan_file\<close> gives the returned list and what \<open>except\<close> printed.
\<close>

definition try_block ::
  "string \<Rightarrow> string + string list \<Rightarrow> violation list \<Rightarrow> violation list \<times> string option"
where
  "try_block file_path reading violations =
     (case reading of
        Inl e \<Rightarrow> (violations, Some e)
      | Inr lines \<Rightarrow> (scan_lines file_path 1 lines violations, None))"

definition scan_file :: "string \<Rightarrow> string + string list \<Rightarrow> violation list \<times> string list" where
  "scan_file file_path reading =
     (case try_block file_path reading [] of
        (violations, Some e) \<Rightarrow> (violations, [''Error scanning '' @ file_path @ '': '' @ e])
      | (violations, None) \<Rightarrow> (violations, []))"

section \<open>Scanning a directory\<close>

record fs_entry =
  path :: string
  is_file :: bool
  reading :: "string + string list"

record linter =
  violations :: "string list"
  stdout :: "string list"

definition excluded_dirs :: "string set" where
  "excluded_dirs =
     {''.git'', ''.gradle'', ''build'', ''node_modules'', ''.idea'',
      ''venv'', ''__pycache__'', ''.pytest_cache'', ''target''}"

definition excluded_files :: "string set" where
  "excluded_files = {''phi_linter.py'', ''phi_violations.txt'', ''.gitignore''}"

definition scanned_suffixes :: "string list" where
  "scanned_suffixes = [''.kt'', ''.java'', ''.xml'', ''.json'', ''.md'', ''.txt'', ''.yml'', ''.yaml'']"

definition warn_mark :: string where
  \<comment> \<open>the bytes of the sign that starts the line printed for a violation\<close>
  "warn_mark = [CHR 0xE2, CHR 0x80, CHR 0x9A, CHR 0xC3, CHR 0xB6, CHR 0xE2, CHR 0x80, CHR 0xA0,
                CHR 0xC3, CHR 0x94, CHR 0xE2, CHR 0x88, CHR 0x8F, CHR 0xC3, CHR 0xA8]"

definition start_mark :: string where
  "start_mark = [CHR 0xEF, CHR 0xA3, CHR 0xBF, CHR 0xC3, CHR 0xBC, CHR 0xC3, CHR 0xAE, CHR 0xC3,
                 CHR 0xA7]"

definition fail_mark :: string where
  "fail_mark = [CHR 0xE2, CHR 0x80, CHR 0x9A, CHR 0xC3, CHR 0xB9, CHR 0xC3, CHR 0xA5]"

definition ok_mark :: string where
  "ok_mark = [CHR 0xE2, CHR 0x80, CHR 0x9A, CHR 0xC3, CHR 0xBA, CHR 0xC3, CHR 0x96]"

definition say :: "string \<Rightarrow> linter \<Rightarrow> linter" where
  \<comment> \<open>\<open>print(text)\<close>\<close>
  "say text st = st\<lparr>stdout := stdout st @ [text]\<rparr>"

definition violation_text :: "string \<Rightarrow> violation \<Rightarrow> string" where
  \<comment> \<open>the f-string \<open>{file_path}:{line_num} - {message}\<close>\<close>
  "violation_text file_path v =
     (case v of (line_num, category, msg) \<Rightarrow>
        file_path @ '':'' @ digits_of line_num @ '' - '' @ msg)"

fun record_violations :: "string \<Rightarrow> violation list \<Rightarrow> linter \<Rightarrow> linter" where
  "record_violations file_path [] st = st"
| "record_violations file_path (v # vs) st =
     (let violation = violation_text file_path v in
      record_violations file_path vs
        (say (warn_mark @ ''  '' @ violation)
          (st\<lparr>violations := violations st @ [violation]\<rparr>)))"

text \<open>
  \<open>self.excluded_dirs\<close> is a Python set, and \<open>any(... for excluded in self.excluded_dirs)\<close>
  visits it in an order that a run does not fix. The order is the argument \<open>dirs\<close>: a
  list of the elements of \<open>excluded_dirs\<close>.
\<close>

definition scan_entry :: "string list \<Rightarrow> fs_entry \<Rightarrow> linter \<Rightarrow> linter" where
  "scan_entry dirs e st =
     (if is_file e then
        if list_ex (\<lambda>excluded. contains excluded (path e)) dirs then st
        else if path_name (path e) \<in> excluded_files then st
        else if path_suffix (path e) \<notin> set scanned_suffixes then st
        else
          (case scan_file (path e) (reading e) of (found, printed) \<Rightarrow>
             let st = st\<lparr>stdout := stdout st @ printed\<rparr> in
             if found \<noteq> [] then record_violations (path e) found st else st)
      else st)"

fun scan_entries :: "string list \<Rightarrow> fs_entry list \<Rightarrow> linter \<Rightarrow> linter" where
  "scan_entries dirs [] st = st"
| "scan_entries dirs (e # es) st = scan_entries dirs es (scan_entry dirs e st)"

definition scan_directory :: "string list \<Rightarrow> string \<Rightarrow> fs_entry list \<Rightarrow> linter \<Rightarrow> linter" where
  \<comment> \<open>\<open>entries\<close> is what \<open>root_dir.rglob('*')\<close> yields, in its order\<close>
  "scan_directory dirs root_dir entries st =
     scan_entries dirs entries (say (''Scanning directory: '' @ root_dir) st)"

section \<open>The report and the exit code\<close>

fun write_violations :: "string list \<Rightarrow> string \<Rightarrow> string" where
  \<comment> \<open>the loop of \<open>f.write\<close>, on the text written so far\<close>
  "write_violations [] f = f"
| "write_violations (violation # vs) f = write_violations vs (f @ violation @ [newline])"

definition generate_report :: "string list \<Rightarrow> string" where
  \<comment> \<open>the text written to the output file\<close>
  "generate_report vs =
     (if vs \<noteq> [] then
        let f = ''PHI Violations Detected:'' @ [newline];
            f = f @ replicate 50 CHR ''='' @ [newline, newline];
            f = write_violations vs f
        in f @ [newline] @ ''Total violations: '' @ digits_of (length vs) @ [newline]
      else ''No PHI violations detected.'' @ [newline])"

record run_result =
  exit_code :: nat
  linter_after :: linter
  report :: "string option"

record tree =
  root_dir :: string
  root_exists :: bool
  entries :: "fs_entry list"

definition run :: "string list \<Rightarrow> tree \<Rightarrow> linter \<Rightarrow> run_result" where
  "run dirs t st0 =
     (let st = say (replicate 50 CHR ''='') (say (start_mark @ '' Starting PHI Linter...'') st0) in
      if \<not> root_exists t then
        \<lparr>exit_code = 1,
         linter_after = say (fail_mark @ '' Directory not found: '' @ root_dir t) st,
         report = None\<rparr>
      else
        let st = scan_directory dirs (root_dir t) (entries t) st;
            written = generate_report (violations st)
        in if violations st \<noteq> [] then
             \<lparr>exit_code = 1,
              linter_after =
                say ''Please review and fix these violations before committing.''
                  (say ([newline] @ fail_mark @ '' Found '' @ digits_of (length (violations st)) @
                        '' PHI violations'') st),
              report = Some written\<rparr>
           else
             \<lparr>exit_code = 0,
              linter_after = say ([newline] @ ok_mark @ '' No PHI violations detected'') st,
              report = Some written\<rparr>)"

definition new_linter :: linter where
  \<comment> \<open>\<open>PHILinter()\<close>\<close>
  "new_linter = \<lparr>violations = [], stdout = []\<rparr>"

definition main :: "string list \<Rightarrow> tree \<Rightarrow> run_result" where
  \<comment> \<open>\<open>linter = PHILinter(); sys.exit(linter.run(args.dir))\<close>\<close>
  "main dirs t = run dirs t new_linter"

section \<open>Strings: the executable tests and their meaning\<close>

lemma startswith_prefix: "startswith p s \<longleftrightarrow> prefix p s"
proof
  assume "startswith p s"
  then have "s = p @ drop (length p) s"
    by (metis startswith_def append_take_drop_id)
  then show "prefix p s"
    by (metis prefixI)
next
  assume "prefix p s"
  then show "startswith p s"
    by (auto simp: prefix_def startswith_def)
qed

lemma contains_sublist: "contains sub s \<longleftrightarrow> sublist sub s"
  by (induction s) (simp_all add: sublist_Cons_right startswith_prefix)





section \<open>The loops of the scan as list comprehensions\<close>

lemma scan_matches_append:
  "scan_matches file_path n line category ms vs =
     vs @ map (\<lambda>m. (n, category, message category m))
            (filter (\<lambda>m. \<not> is_false_positive m line file_path) ms)"
  by (induction ms arbitrary: vs) simp_all

lemma scan_rules_append:
  "scan_rules file_path n line category rules vs =
     vs @ concat (map (\<lambda>rule. map (\<lambda>m. (n, category, message category m))
                    (filter (\<lambda>m. \<not> is_false_positive m line file_path) (finditer rule line)))
                  rules)"
  by (induction rules arbitrary: vs) (simp_all add: scan_matches_append)

lemma scan_categories_append:
  "scan_categories file_path n line items vs =
     vs @ concat (map (\<lambda>(category, rules).
            concat (map (\<lambda>rule. map (\<lambda>m. (n, category, message category m))
                      (filter (\<lambda>m. \<not> is_false_positive m line file_path) (finditer rule line)))
                    rules)) items)"
  by (induction items arbitrary: vs) (auto simp: scan_rules_append)

lemma scan_line_concat:
  "scan_line file_path n line =
     concat (map (\<lambda>(category, rules).
       concat (map (\<lambda>rule. map (\<lambda>m. (n, category, message category m))
                 (filter (\<lambda>m. \<not> is_false_positive m line file_path) (finditer rule line)))
               rules)) phi_patterns)"
  by (simp add: scan_line_def scan_categories_append)

lemma scan_categories_scan_line:
  "scan_categories file_path n line phi_patterns vs = vs @ scan_line file_path n line"
  by (simp add: scan_line_def scan_categories_append)

lemma scan_lines_append:
  "scan_lines file_path n lines vs =
     vs @ concat (map (\<lambda>(k, line). scan_line file_path k line)
                    (zip [n ..< n + length lines] lines))"
proof (induction lines arbitrary: n vs)
  case Nil
  then show ?case by simp
next
  case (Cons line lines)
  have "n < n + length (line # lines)"
    by simp
  from upt_conv_Cons [OF this]
  have upt: "[n ..< n + length (line # lines)] = n # [Suc n ..< Suc n + length lines]"
    by simp
  show ?case
    unfolding upt by (simp add: Cons.IH scan_categories_scan_line)
qed

lemma rejected_all:
  assumes "\<And>m. is_false_positive m line file_path"
  shows "scan_line file_path n line = []"
  by (auto simp: scan_line_concat assms)

section \<open>The line scan\<close>


section \<open>The filter as the disjunction of its five conditions\<close>




lemma upper_case_config_is_a_match:
  "finditer (hd common_phi_terms) ''PHI CONFIG'' = [''PHI CONFIG'']"
  by code_simp

section \<open>Lines that hold a regular expression\<close>

text \<open>
  Claim C4. For every file, line number and line text: if the line contains a backslash
  followed by the letter \<open>d\<close>, the scan of the line yields no violation, whatever else
  the line contains.
\<close>

theorem scan_line_backslash_d:
  assumes "sublist [bslash, CHR ''d''] line"
  shows "scan_line file_path line_num line = []"
proof (rule rejected_all)
  fix m
  from assms show "is_false_positive m line file_path"
    by (simp add: is_false_positive_def regex_literal_def contains_sublist)
qed

definition ssn_rule_line :: string where
  \<comment> \<open>the line \<open>r'\d{3}-\d{2}-\d{4}'\<close>\<close>
  "ssn_rule_line =
     [CHR ''r'', CHR 0x27, bslash] @ ''d{3}-'' @ [bslash] @ ''d{2}-'' @ [bslash] @ ''d{4}'' @
     [CHR 0x27]"

theorem scan_line_backslash_d_witness:
  "sublist [bslash, CHR ''d''] ssn_rule_line \<and>
   scan_line ''phi_linter_rules.py'' 1 ssn_rule_line = []"
proof -
  have h: "sublist [bslash, CHR ''d''] ssn_rule_line"
    by code_simp
  from h scan_line_backslash_d [OF h] show ?thesis
    by simp
qed

section \<open>The comment heuristic\<close>



section \<open>The exit code\<close>

definition written_order :: "string list" where
  \<comment> \<open>the excluded directories in the order in which the source writes them\<close>
  "written_order =
     [''.git'', ''.gradle'', ''build'', ''node_modules'', ''.idea'',
      ''venv'', ''__pycache__'', ''.pytest_cache'', ''target'']"

lemma set_written_order: "set written_order = excluded_dirs"
  by (simp add: written_order_def excluded_dirs_def)

lemma set_rev_written_order: "set (rev written_order) = excluded_dirs"
  by (simp add: set_written_order)

definition missing_tree :: tree where
  "missing_tree = \<lparr>root_dir = ''missing'', root_exists = False, entries = []\<rparr>"

text \<open>
  Claim C3, as the code has it. When the directory to scan exists, the exit code of a run is
  0 if and only if the run has counted no violation, and it is 1 otherwise; when the
  directory does not exist, \<open>run\<close> returns 1 before it scans, so the exit code is 1 with
  no violation counted.
\<close>

theorem exit_code_zero_iff:
  "exit_code (run dirs t st0) = 0 \<longleftrightarrow>
     root_exists t \<and> length (violations (linter_after (run dirs t st0))) = 0"
  by (simp add: run_def Let_def say_def)

text \<open>
  A run on a directory that does not exist: no violation, and the exit code is not 0.
\<close>

theorem exit_code_missing_directory:
  "exit_code (main written_order missing_tree) = 1 \<and>
   length (violations (linter_after (main written_order missing_tree))) = 0"
  by (simp add: main_def run_def Let_def say_def missing_tree_def new_linter_def)

section \<open>The scenario of the patient identifier\<close>

text \<open>
  \<open>rule_matches line\<close> lists, for every category, what \<open>finditer\<close> yields for each of
  its rules on the line. It does not depend on the file.
\<close>

definition rule_matches :: "string \<Rightarrow> (string \<times> string list list) list" where
  "rule_matches line =
     map (\<lambda>(category, rules). (category, map (\<lambda>rule. finditer rule line) rules)) phi_patterns"

lemma scan_line_rule_matches:
  "scan_line file_path n line =
     concat (map (\<lambda>(category, found).
       concat (map (\<lambda>ms. map (\<lambda>m. (n, category, message category m))
                 (filter (\<lambda>m. \<not> is_false_positive m line file_path) ms)) found))
       (rule_matches line))"
  by (simp add: scan_line_concat rule_matches_def comp_def case_prod_unfold)

lemma patient_line_matches:
  "rule_matches ''Patient ID: 48213'' =
    [(''phone_numbers'', [[], [], [], [], [], []]),
     (''email_addresses'', [[]]),
     (''names'', [[], [], []]),
     (''medical_ids'', [[], [''Patient ID: 48213''], [], []]),
     (''addresses'', [[], []]),
     (''medical_terms'', [[''Patient ID''], [], [], []]),
     (''dates_with_context'', [[], []]),
     (''ssn_patterns'', [[], []]),
     (''credit_cards'', [[]]),
     (''common_phi_terms'', [[], []])]"
  by code_simp

lemma patient_line_scan:
  assumes "\<not> is_false_positive ''Patient ID: 48213'' ''Patient ID: 48213'' file_path"
    and "\<not> is_false_positive ''Patient ID'' ''Patient ID: 48213'' file_path"
  shows "scan_line file_path n ''Patient ID: 48213'' =
    [(n, ''medical_ids'', ''Potential medical_ids: Patient ID: 48213''),
     (n, ''medical_terms'', ''Potential medical_terms: Patient ID'')]"
  using assms by (simp add: scan_line_rule_matches patient_line_matches message_def)

lemma controller_scan:
  "scan_file ''Controller.kt'' (Inr [''Patient ID: 48213'']) =
    ([(1, ''medical_ids'', ''Potential medical_ids: Patient ID: 48213''),
      (1, ''medical_terms'', ''Potential medical_terms: Patient ID'')], [])"
proof -
  have "\<not> is_false_positive ''Patient ID: 48213'' ''Patient ID: 48213'' ''Controller.kt''"
    by code_simp
  moreover have "\<not> is_false_positive ''Patient ID'' ''Patient ID: 48213'' ''Controller.kt''"
    by code_simp
  ultimately show ?thesis
    by (simp add: scan_file_def try_block_def scan_categories_scan_line patient_line_scan)
qed

text \<open>
  Claim C5, as the code has it. Scanning the single line \<open>Patient ID: 48213\<close> in a file
  named \<open>Controller.kt\<close> yields exactly two violations: the first of category
  \<open>medical_ids\<close> with the message \<open>Potential medical_ids: Patient ID: 48213\<close>, the
  second of category \<open>medical_terms\<close> with the message
  \<open>Potential medical_terms: Patient ID\<close>, from the rule for patient references, which
  matches \<open>Patient ID\<close> up to the colon.
\<close>

theorem patient_id_line_two_violations:
  "scan_file ''Controller.kt'' (Inr [''Patient ID: 48213'']) =
    ([(1, ''medical_ids'', ''Potential medical_ids: Patient ID: 48213''),
      (1, ''medical_terms'', ''Potential medical_terms: Patient ID'')], [])"
  by (rule controller_scan)

text \<open>The scan of that file does not yield exactly one violation.\<close>

theorem patient_id_line_not_one_violation:
  "length (fst (scan_file ''Controller.kt'' (Inr [''Patient ID: 48213'']))) \<noteq> 1"
  by (simp add: controller_scan)

section \<open>Determinism\<close>

lemma scan_entry_set:
  "set ds1 = set ds2 \<Longrightarrow> scan_entry ds1 e st = scan_entry ds2 e st"
  by (simp add: scan_entry_def list_ex_iff)

lemma scan_entries_set:
  "set ds1 = set ds2 \<Longrightarrow> scan_entries ds1 es st = scan_entries ds2 es st"
  by (induction es arbitrary: st) (simp_all add: scan_entry_set [of ds1 ds2])

definition rebuild_kt :: fs_entry where
  "rebuild_kt =
     \<lparr>path = ''src/rebuild.kt'', is_file = True, reading = Inr [''Patient ID: 48213'']\<rparr>"

definition remake_kt :: fs_entry where
  "remake_kt =
     \<lparr>path = ''src/remake.kt'', is_file = True, reading = Inr [''Patient ID: 48213'']\<rparr>"

definition small_tree :: tree where
  "small_tree = \<lparr>root_dir = ''.'', root_exists = True, entries = [rebuild_kt, remake_kt]\<rparr>"

text \<open>
  Claim C6. Two scans of the same input, the same files with the same contents in the
  same order, give the same sequence of violations, element for element. The one thing
  that a run does not fix is the order in which the set of excluded directories is
  visited: whatever the two orders \<open>ds1\<close> and \<open>ds2\<close> are, the scan of a directory
  from the same linter, and a whole run from a new linter, give the same result, which
  holds the violations, the printed lines, the exit code and the report.
\<close>

theorem scan_deterministic:
  assumes "set ds1 = excluded_dirs" and "set ds2 = excluded_dirs"
  shows "scan_directory ds1 root es st = scan_directory ds2 root es st \<and>
         main ds1 t = main ds2 t"
proof -
  from assms have "set ds1 = set ds2"
    by simp
  then have eq: "scan_directory ds1 = scan_directory ds2"
    by (intro ext) (simp add: scan_directory_def scan_entries_set [of ds1 ds2])
  show ?thesis
    unfolding main_def run_def eq by simp
qed

theorem scan_deterministic_witness:
  "set written_order = excluded_dirs \<and> set (rev written_order) = excluded_dirs \<and>
   scan_directory written_order ''.'' [rebuild_kt, remake_kt] new_linter =
     scan_directory (rev written_order) ''.'' [rebuild_kt, remake_kt] new_linter \<and>
   main written_order small_tree = main (rev written_order) small_tree"
  using scan_deterministic [OF set_written_order set_rev_written_order]
    set_written_order set_rev_written_order
  by blast

section \<open>The report\<close>




section \<open>Failures of reading\<close>


section \<open>Excluded directories\<close>

text \<open>
  Claim C9. The exclusion of directories tests substrings of the whole path: an entry
  whose path contains one of the excluded names anywhere is skipped, the linter is left
  as it was. So \<open>src/rebuild.kt\<close>, which lies under no directory named \<open>build\<close>, is
  skipped, while \<open>src/remake.kt\<close> with the same contents is scanned.
\<close>

theorem scan_entry_excluded_substring:
  assumes "set dirs = excluded_dirs" and "d \<in> excluded_dirs" and "sublist d (path e)"
  shows "scan_entry dirs e st = st"
  using assms by (auto simp: scan_entry_def list_ex_iff contains_sublist)

theorem scan_entry_excluded_substring_witness:
  "set written_order = excluded_dirs \<and> ''build'' \<in> excluded_dirs \<and>
   sublist ''build'' (path rebuild_kt) \<and>
   scan_entry written_order rebuild_kt new_linter = new_linter"
proof -
  have a: "''build'' \<in> excluded_dirs"
    by (simp add: excluded_dirs_def)
  have b: "sublist ''build'' (path rebuild_kt)"
    by code_simp
  from scan_entry_excluded_substring [OF set_written_order a b] set_written_order a b
  show ?thesis
    by blast
qed

lemma remake_kt_is_scanned:
  "violations (scan_entry written_order remake_kt new_linter) =
     [''src/remake.kt:1 - Potential medical_ids: Patient ID: 48213'',
      ''src/remake.kt:1 - Potential medical_terms: Patient ID'']"
proof -
  have a: "\<not> is_false_positive ''Patient ID: 48213'' ''Patient ID: 48213'' ''src/remake.kt''"
    by code_simp
  have b: "\<not> is_false_positive ''Patient ID'' ''Patient ID: 48213'' ''src/remake.kt''"
    by code_simp
  have c: "\<not> list_ex (\<lambda>excluded. contains excluded ''src/remake.kt'') written_order"
    by code_simp
  have d: "path_name ''src/remake.kt'' \<notin> excluded_files"
    by code_simp
  have e: "path_suffix ''src/remake.kt'' \<in> set scanned_suffixes"
    by code_simp
  have f: "digits_of 1 = ''1''"
    by code_simp
  have g: "digits_of (Suc 0) = ''1''"
    using f by simp
  show ?thesis
    using c d e
    by (simp add: scan_entry_def remake_kt_def scan_file_def try_block_def
        scan_categories_scan_line patient_line_scan [OF a b] Let_def say_def
        violation_text_def new_linter_def f g)
qed

end
